theory Spec2Isabelle
  imports Main
begin

section \<open>The WhatsApp preview webhook: receiveMessagePreview.ts\<close>

text \<open>
  A shallow embedding of
  \<^verbatim>\<open>apps/builder/src/features/whatsapp/receiveMessagePreview.ts\<close>.
  The handler is sequential code over a validated request body. It calls collaborators
  that live outside the file (the session store, the flow engine, Sentry, the console,
  \<^verbatim>\<open>parseUnknownError\<close>, the \<^verbatim>\<open>JSON\<close> built-ins and the table of provider error
  codes). Those are parameters of the model, collected in the record \<open>deps\<close>. Every
  collaborator call threads an abstract world \<open>'w\<close>, may reject with an exception, and
  is appended to a trace, so that "is invoked exactly once", "is never invoked" and "before"
  are statements about the trace. Exceptions are values.
\<close>

subsection \<open>JavaScript values and exceptions\<close>

text \<open>
  Plain JavaScript data as \<^verbatim>\<open>JSON.parse\<close> produces it, plus \<^verbatim>\<open>undefined\<close>. Numbers
  are kept as integers: the code only compares error codes with \<^verbatim>\<open>===\<close> and never
  computes with a number.
\<close>

datatype js_value =
    JUndefined
  | JNull
  | JBool bool
  | JNumber int
  | JString string
  | JArray "js_value list"
  | JObject "(string \<times> js_value) list"

text \<open>
  What a \<^verbatim>\<open>throw\<close> or a rejected promise carries. \<open>WhatsAppError message details\<close> is an
  instance of the class \<^verbatim>\<open>WhatsAppError\<close> (its second constructor argument is optional,
  hence \<open>JUndefined\<close> when it is left out); \<open>Error message\<close> is a plain \<^verbatim>\<open>Error\<close>;
  \<open>TRPCError code message\<close> is the transport's error class. Only the first is
  \<^verbatim>\<open>instanceof WhatsAppError\<close>. The class \<^verbatim>\<open>WhatsAppError\<close> is imported by the file;
  its \<^verbatim>\<open>message\<close> and \<^verbatim>\<open>details\<close> are taken to be the two arguments of its constructor.
\<close>

datatype js_exn =
    WhatsAppError string js_value
  | Error string
  | TRPCError string string

subsection \<open>The request body\<close>

text \<open>
  The fields of \<^verbatim>\<open>WhatsAppWebhookRequestBody["entry"]\<close> that the file reads. A field
  read through \<^verbatim>\<open>?.\<close> or \<^verbatim>\<open>??\<close> is optional; \<^verbatim>\<open>changes\<close> and \<^verbatim>\<open>value\<close> are read
  without a guard and are therefore required. \<open>msg_type\<close>, \<open>msg_from\<close> and
  \<open>change_value\<close> are the fields \<^verbatim>\<open>type\<close>, \<^verbatim>\<open>from\<close> and \<^verbatim>\<open>value\<close>; \<open>msg_content\<close>
  is the rest of a message, which the file hands on without reading it. Likewise
  \<open>status_rest\<close> and \<open>error_rest\<close> are the keys of a status and of an error that the file
  does not read: they are part of what \<^verbatim>\<open>JSON.stringify(status)\<close> and
  \<^verbatim>\<open>JSON.stringify(status.errors)\<close> print.
\<close>

record wa_error =
  code :: int
  error_data :: "js_value option"
  error_rest :: js_value

record status =
  recipient_id :: string
  errors :: "wa_error list option"
  status_rest :: js_value

record message =
  msg_type :: string
  msg_from :: string
  msg_content :: js_value

record profile =
  name :: "string option"

record contact =
  profile :: "profile option"

record wa_value =
  statuses :: "status list option"
  messages :: "message list option"
  contacts :: "contact list option"

record change =
  change_value :: wa_value

record entry =
  changes :: "change list"

subsection \<open>Collaborators\<close>

text \<open>
  The argument of \<^verbatim>\<open>resumeWhatsAppFlow\<close>. \<open>contact_of\<close> and \<open>contact_name\<close> are its
  fields \<^verbatim>\<open>contact\<close> and \<^verbatim>\<open>contact.name\<close>.
\<close>

record contact_arg =
  contact_name :: string
  phoneNumber :: string

record resume_args =
  receivedMessage :: message
  sessionId :: string
  contact_of :: contact_arg

text \<open>One constructor per call that leaves the file, with the arguments of the call.\<close>

datatype event =
    DeleteSession string
  | ResumeWhatsAppFlow resume_args
  | CaptureMessage string js_value
  | ConsoleLog "js_value list"
  | ParseUnknownError js_exn
  | AddBreadcrumb js_value
  | CaptureException js_exn

text \<open>
  The imports of the file. A collaborator takes the world and its arguments and returns
  its outcome with the new world; \<open>Some e\<close> (or \<open>Inl e\<close>) is a throw or a rejection with
  \<open>e\<close>. \<open>incomingWebhookErrorCodes\<close> is the code table, indexed by its keys.
  \<open>JSON_parse s = None\<close> is a \<^verbatim>\<open>SyntaxError\<close>. \<^verbatim>\<open>JSON.stringify\<close> is taken once for
  a status and once for a list of errors, because the key set it prints is fixed by a
  schema outside the file.
\<close>

record 'w deps =
  WHATSAPP_PREVIEW_FROM_PHONE_NUMBER_ID :: "string option"
  incomingWebhookErrorCodes :: "string \<Rightarrow> int"
  JSON_stringify_status :: "status \<Rightarrow> string"
  JSON_stringify_errors :: "wa_error list \<Rightarrow> string"
  JSON_parse :: "string \<Rightarrow> js_value option"
  deleteSession :: "'w \<Rightarrow> string \<Rightarrow> js_exn option \<times> 'w"
  resumeWhatsAppFlow :: "'w \<Rightarrow> resume_args \<Rightarrow> js_exn option \<times> 'w"
  parseUnknownError :: "'w \<Rightarrow> js_exn \<Rightarrow> (js_exn + string option) \<times> 'w"
  captureMessage :: "'w \<Rightarrow> string \<Rightarrow> js_value \<Rightarrow> js_exn option \<times> 'w"
  addBreadcrumb :: "'w \<Rightarrow> js_value \<Rightarrow> js_exn option \<times> 'w"
  captureException :: "'w \<Rightarrow> js_exn \<Rightarrow> js_exn option \<times> 'w"

record 'w st =
  world :: 'w
  trace :: "event list"

definition emit :: "event \<Rightarrow> 'w \<Rightarrow> 'w st \<Rightarrow> 'w st" where
  "emit ev w s = \<lparr>world = w, trace = trace s @ [ev]\<rparr>"

definition call_deleteSession :: "'w deps \<Rightarrow> 'w st \<Rightarrow> string \<Rightarrow> js_exn option \<times> 'w st" where
  "call_deleteSession d s sid =
     (case deleteSession d (world s) sid of (r, w) \<Rightarrow> (r, emit (DeleteSession sid) w s))"

definition call_resumeWhatsAppFlow ::
  "'w deps \<Rightarrow> 'w st \<Rightarrow> resume_args \<Rightarrow> js_exn option \<times> 'w st" where
  "call_resumeWhatsAppFlow d s a =
     (case resumeWhatsAppFlow d (world s) a of (r, w) \<Rightarrow> (r, emit (ResumeWhatsAppFlow a) w s))"

definition call_parseUnknownError ::
  "'w deps \<Rightarrow> 'w st \<Rightarrow> js_exn \<Rightarrow> (js_exn + string option) \<times> 'w st" where
  "call_parseUnknownError d s err =
     (case parseUnknownError d (world s) err of (r, w) \<Rightarrow> (r, emit (ParseUnknownError err) w s))"

definition call_captureMessage ::
  "'w deps \<Rightarrow> 'w st \<Rightarrow> string \<Rightarrow> js_value \<Rightarrow> js_exn option \<times> 'w st" where
  "call_captureMessage d s m det =
     (case captureMessage d (world s) m det of (r, w) \<Rightarrow> (r, emit (CaptureMessage m det) w s))"

definition call_addBreadcrumb :: "'w deps \<Rightarrow> 'w st \<Rightarrow> js_value \<Rightarrow> js_exn option \<times> 'w st" where
  "call_addBreadcrumb d s b =
     (case addBreadcrumb d (world s) b of (r, w) \<Rightarrow> (r, emit (AddBreadcrumb b) w s))"

definition call_captureException :: "'w deps \<Rightarrow> 'w st \<Rightarrow> js_exn \<Rightarrow> js_exn option \<times> 'w st" where
  "call_captureException d s err =
     (case captureException d (world s) err of (r, w) \<Rightarrow> (r, emit (CaptureException err) w s))"

definition console_log :: "'w st \<Rightarrow> js_value list \<Rightarrow> 'w st" where
  "console_log s args = emit (ConsoleLog args) (world s) s"

subsection \<open>The functions of the file\<close>

definition whatsAppPreviewSessionIdPrefix :: string where
  "whatsAppPreviewSessionIdPrefix = ''wa-preview-''"

text \<open>\<^verbatim>\<open>xs.at(0)\<close>: the first element, \<^verbatim>\<open>undefined\<close> on an empty array.\<close>

fun at0 :: "'a list \<Rightarrow> 'a option" where
  "at0 [] = None"
| "at0 (x # rest) = Some x"

text \<open>\<^verbatim>\<open>entry.at(0)?.changes.at(0)?.value\<close>, the prefix of the three access paths.\<close>

definition first_value :: "entry list \<Rightarrow> wa_value option" where
  "first_value entry =
     (case at0 entry of None \<Rightarrow> None
      | Some e \<Rightarrow> (case at0 (changes e) of None \<Rightarrow> None | Some c \<Rightarrow> Some (change_value c)))"

text \<open>\<^verbatim>\<open>entry.at(0)?.changes.at(0)?.value.statuses?.at(0)\<close>\<close>

definition first_status :: "entry list \<Rightarrow> status option" where
  "first_status entry =
     (case first_value entry of None \<Rightarrow> None
      | Some v \<Rightarrow> (case statuses v of None \<Rightarrow> None | Some ss \<Rightarrow> at0 ss))"

text \<open>\<^verbatim>\<open>entry.at(0)?.changes.at(0)?.value.messages?.at(0)\<close>\<close>

definition first_message :: "entry list \<Rightarrow> message option" where
  "first_message entry =
     (case first_value entry of None \<Rightarrow> None
      | Some v \<Rightarrow> (case messages v of None \<Rightarrow> None | Some ms \<Rightarrow> at0 ms))"

text \<open>\<^verbatim>\<open>entry.at(0)?.changes.at(0)?.value?.contacts?.at(0)\<close>\<close>

definition first_contact :: "entry list \<Rightarrow> contact option" where
  "first_contact entry =
     (case first_value entry of None \<Rightarrow> None
      | Some v \<Rightarrow> (case contacts v of None \<Rightarrow> None | Some cs \<Rightarrow> at0 cs))"

text \<open>
  \<^verbatim>\<open>assertEnv\<close> tests the environment value for truthiness: \<^verbatim>\<open>undefined\<close> and the empty
  string both throw.
\<close>

definition assertEnv :: "'w deps \<Rightarrow> js_exn + unit" where
  "assertEnv d =
     (case WHATSAPP_PREVIEW_FROM_PHONE_NUMBER_ID d of
        None \<Rightarrow>
          Inl (TRPCError ''INTERNAL_SERVER_ERROR''
                 ''WHATSAPP_PREVIEW_FROM_PHONE_NUMBER_ID is not defined'')
      | Some v \<Rightarrow>
          if v = [] then
            Inl (TRPCError ''INTERNAL_SERVER_ERROR''
                   ''WHATSAPP_PREVIEW_FROM_PHONE_NUMBER_ID is not defined'')
          else Inr ())"

text \<open>The result of \<^verbatim>\<open>extractMessageData\<close>; \<open>md_receivedMessage\<close> is its \<^verbatim>\<open>receivedMessage\<close>.\<close>

record message_data =
  md_receivedMessage :: "message option"
  contactName :: string
  contactPhoneNumber :: string

definition extractMessageData :: "entry list \<Rightarrow> message_data" where
  "extractMessageData entry =
     \<lparr>md_receivedMessage = first_message entry,
      contactName =
        (case first_contact entry of None \<Rightarrow> ''''
         | Some c \<Rightarrow> (case profile c of None \<Rightarrow> ''''
             | Some p \<Rightarrow> (case name p of None \<Rightarrow> '''' | Some n \<Rightarrow> n))),
      contactPhoneNumber =
        (case first_message entry of None \<Rightarrow> '''' | Some m \<Rightarrow> msg_from m)\<rparr>"

text \<open>
  \<^verbatim>\<open>processErrors\<close>. An array is truthy even when empty, so \<^verbatim>\<open>if (status?.errors)\<close>
  is entered exactly when the field is present. \<open>Inl e\<close> is \<^verbatim>\<open>throw e\<close>; a rejection of
  the awaited \<^verbatim>\<open>deleteSession\<close> leaves the function in place of the classified error.
\<close>

definition processErrors :: "'w deps \<Rightarrow> 'w st \<Rightarrow> entry list \<Rightarrow> (js_exn + unit) \<times> 'w st" where
  "processErrors d s entry =
     (case first_status entry of
        None \<Rightarrow> (Inr (), s)
      | Some status \<Rightarrow>
          (case errors status of
             None \<Rightarrow> (Inr (), s)
           | Some errs \<Rightarrow>
               (case at0 errs of
                  None \<Rightarrow> (Inl (Error (''WA empty errors: '' @ JSON_stringify_status d status)), s)
                | Some error \<Rightarrow>
                    if code error =
                       incomingWebhookErrorCodes d ''Could not send message to unengaged user''
                    then
                      (case call_deleteSession d s
                              (whatsAppPreviewSessionIdPrefix @ recipient_id status) of
                         (Some e, s') \<Rightarrow> (Inl e, s')
                       | (None, s') \<Rightarrow>
                           (Inl (WhatsAppError ''Could not send message to unengaged user''
                                   JUndefined), s'))
                    else if code error = incomingWebhookErrorCodes d ''Message undeliverable''
                    then (Inl (WhatsAppError ''Message undeliverable'' JUndefined), s)
                    else if code error = incomingWebhookErrorCodes d ''Media upload error''
                    then
                      (Inl (WhatsAppError ''Media upload error''
                              (JObject [(''reason'',
                                 (case error_data error of None \<Rightarrow> JUndefined | Some v \<Rightarrow> v))])),
                       s)
                    else
                      (Inl (Error (''WA unknown incoming errors: '' @ JSON_stringify_errors d errs)),
                       s))))"

text \<open>
  \<^verbatim>\<open>safeJsonParse\<close>: a falsy argument (\<^verbatim>\<open>undefined\<close> or the empty string) is returned as
  it is; otherwise the parsed value, or the string itself when parsing throws.
\<close>

definition safeJsonParse :: "'w deps \<Rightarrow> string option \<Rightarrow> js_value" where
  "safeJsonParse d v =
     (case v of
        None \<Rightarrow> JUndefined
      | Some s \<Rightarrow>
          if s = [] then JString s
          else (case JSON_parse d s of Some j \<Rightarrow> j | None \<Rightarrow> JString s))"

text \<open>
  \<^verbatim>\<open>typeof details === "object" && details\<close>: objects and arrays; \<^verbatim>\<open>null\<close> has type
  \<^verbatim>\<open>"object"\<close> but is falsy.
\<close>

fun is_truthy_object :: "js_value \<Rightarrow> bool" where
  "is_truthy_object (JArray _) = True"
| "is_truthy_object (JObject _) = True"
| "is_truthy_object _ = False"

record response =
  message :: string

text \<open>How the \<^verbatim>\<open>try\<close> block ends: by its \<^verbatim>\<open>return\<close>, at its last statement, or by a throw.\<close>

datatype try_outcome = Returned response | Completed | Thrown js_exn

definition try_block :: "'w deps \<Rightarrow> 'w st \<Rightarrow> entry list \<Rightarrow> try_outcome \<times> 'w st" where
  "try_block d s entry =
     (case processErrors d s entry of
        (Inl e, s1) \<Rightarrow> (Thrown e, s1)
      | (Inr _, s1) \<Rightarrow>
          (let x = extractMessageData entry in
           case md_receivedMessage x of
             None \<Rightarrow> (Returned \<lparr>message = ''No message content found''\<rparr>, s1)
           | Some m \<Rightarrow>
               if msg_type m = ''reaction''
               then (Returned \<lparr>message = ''No message content found''\<rparr>, s1)
               else
                 (case call_resumeWhatsAppFlow d s1
                         \<lparr>receivedMessage = m,
                          sessionId = whatsAppPreviewSessionIdPrefix @ msg_from m,
                          contact_of = \<lparr>contact_name = contactName x,
                                        phoneNumber = contactPhoneNumber x\<rparr>\<rparr> of
                    (Some e, s2) \<Rightarrow> (Thrown e, s2)
                  | (None, s2) \<Rightarrow> (Completed, s2))))"

text \<open>
  The \<^verbatim>\<open>catch\<close> block. \<open>Some e\<close> is an exception that leaves it: nothing inside the block
  is guarded, so a failing reporter propagates.
\<close>

definition catch_block :: "'w deps \<Rightarrow> 'w st \<Rightarrow> js_exn \<Rightarrow> js_exn option \<times> 'w st" where
  "catch_block d s err =
     (case err of
        WhatsAppError m det \<Rightarrow> call_captureMessage d s m det
      | _ \<Rightarrow>
          (let s1 = console_log s [JString ''Sending unkown error to Sentry''] in
           case call_parseUnknownError d s1 err of
             (Inl e, s2) \<Rightarrow> (Some e, s2)
           | (Inr det, s2) \<Rightarrow>
               (let details = safeJsonParse d det;
                    s3 = console_log s2 [JString ''details'', details] in
                case call_addBreadcrumb d s3
                        (JObject [(''data'',
                           (if is_truthy_object details then details
                            else JObject [(''details'', details)]))]) of
                  (Some e, s4) \<Rightarrow> (Some e, s4)
                | (None, s4) \<Rightarrow> call_captureException d s4 err)))"

text \<open>
  The mutation of \<^verbatim>\<open>receiveMessagePreview\<close>, started in world \<open>w\<close> with an empty trace.
  \<open>Inl e\<close> is a failure that reaches the transport layer.
\<close>

definition receiveMessagePreview ::
  "'w deps \<Rightarrow> 'w \<Rightarrow> entry list \<Rightarrow> (js_exn + response) \<times> 'w st" where
  "receiveMessagePreview d w entry =
     (case assertEnv d of
        Inl e \<Rightarrow> (Inl e, \<lparr>world = w, trace = []\<rparr>)
      | Inr _ \<Rightarrow>
          (case try_block d \<lparr>world = w, trace = []\<rparr> entry of
             (Returned r, s) \<Rightarrow> (Inr r, s)
           | (Completed, s) \<Rightarrow> (Inr \<lparr>message = ''Message received''\<rparr>, s)
           | (Thrown err, s) \<Rightarrow>
               (case catch_block d s err of
                  (Some e, s') \<Rightarrow> (Inl e, s')
                | (None, s') \<Rightarrow> (Inr \<lparr>message = ''Message received''\<rparr>, s'))))"

subsection \<open>Vocabulary of the properties\<close>

text \<open>The calls that touch the session store or the flow engine.\<close>

fun is_flow_call :: "event \<Rightarrow> bool" where
  "is_flow_call (DeleteSession _) = True"
| "is_flow_call (ResumeWhatsAppFlow _) = True"
| "is_flow_call _ = False"

definition flow_calls :: "event list \<Rightarrow> event list" where
  "flow_calls tr = filter is_flow_call tr"

text \<open>The environment value passes the truthiness test of \<^verbatim>\<open>assertEnv\<close>.\<close>

definition env_present :: "'w deps \<Rightarrow> bool" where
  "env_present d =
     (case WHATSAPP_PREVIEW_FROM_PHONE_NUMBER_ID d of None \<Rightarrow> False | Some v \<Rightarrow> v \<noteq> [])"

text \<open>
  The error-reporting collaborators (Sentry and \<^verbatim>\<open>parseUnknownError\<close>) do not fail, in
  any world and on any argument.
\<close>

definition reporters_succeed :: "'w deps \<Rightarrow> bool" where
  "reporters_succeed d \<longleftrightarrow>
     (\<forall>w m det. fst (captureMessage d w m det) = None) \<and>
     (\<forall>w e. \<exists>r. fst (parseUnknownError d w e) = Inr r) \<and>
     (\<forall>w b. fst (addBreadcrumb d w b) = None) \<and>
     (\<forall>w e. fst (captureException d w e) = None)"

text \<open>\<^verbatim>\<open>status?.errors\<close>, the field tested by \<^verbatim>\<open>processErrors\<close>.\<close>

definition status_errors :: "entry list \<Rightarrow> wa_error list option" where
  "status_errors entry =
     (case first_status entry of None \<Rightarrow> None | Some status \<Rightarrow> errors status)"

text \<open>The \<^verbatim>\<open>messages\<close> field of the first entry's first change.\<close>

definition payload_messages :: "entry list \<Rightarrow> message list option" where
  "payload_messages entry = (case first_value entry of None \<Rightarrow> None | Some v \<Rightarrow> messages v)"

text \<open>
  What the report of a failure that is not a \<^verbatim>\<open>WhatsAppError\<close> leaves in the trace,
  when \<^verbatim>\<open>safeJsonParse\<close> returned \<open>details\<close>.
\<close>

definition unclassified_report :: "js_exn \<Rightarrow> js_value \<Rightarrow> event list" where
  "unclassified_report err details =
     [ConsoleLog [JString ''Sending unkown error to Sentry''],
      ParseUnknownError err,
      ConsoleLog [JString ''details'', details],
      AddBreadcrumb (JObject [(''data'',
        (if is_truthy_object details then details else JObject [(''details'', details)]))]),
      CaptureException err]"

text \<open>
  The session and flow calls one expects from reading the payload: the deletion for an
  "unengaged user" status error, the resumption for a message that is not a reaction and
  comes without status errors, nothing otherwise.
\<close>

definition expected_resume_call :: "entry list \<Rightarrow> event list" where
  "expected_resume_call entry =
     (case first_message entry of
        None \<Rightarrow> []
      | Some m \<Rightarrow>
          if msg_type m = ''reaction'' then []
          else [ResumeWhatsAppFlow
                  \<lparr>receivedMessage = m,
                   sessionId = ''wa-preview-'' @ msg_from m,
                   contact_of = \<lparr>contact_name = contactName (extractMessageData entry),
                                 phoneNumber = msg_from m\<rparr>\<rparr>])"

definition expected_flow_calls :: "'w deps \<Rightarrow> entry list \<Rightarrow> event list" where
  "expected_flow_calls d entry =
     (case first_status entry of
        None \<Rightarrow> expected_resume_call entry
      | Some status \<Rightarrow>
          (case errors status of
             None \<Rightarrow> expected_resume_call entry
           | Some errs \<Rightarrow>
               (case at0 errs of
                  None \<Rightarrow> []
                | Some error \<Rightarrow>
                    if code error =
                       incomingWebhookErrorCodes d ''Could not send message to unengaged user''
                    then [DeleteSession (''wa-preview-'' @ recipient_id status)]
                    else [])))"

text \<open>An array cut down to its first element.\<close>

fun head_only :: "'a list \<Rightarrow> 'a list" where
  "head_only [] = []"
| "head_only (x # rest) = [x]"

text \<open>
  The first elements of a payload: the first status, whole but for the errors after the
  first one, which are dropped from its \<open>errors\<close>; the first message; the first contact.
\<close>

definition first_elements :: "entry list \<Rightarrow> status option \<times> message option \<times> contact option"
  where
  "first_elements entry =
     (map_option (\<lambda>status. status\<lparr>errors := map_option head_only (errors status)\<rparr>)
        (first_status entry),
      first_message entry,
      first_contact entry)"

definition is_known_code :: "'w deps \<Rightarrow> int \<Rightarrow> bool" where
  "is_known_code d c \<longleftrightarrow>
     c = incomingWebhookErrorCodes d ''Could not send message to unengaged user'' \<or>
     c = incomingWebhookErrorCodes d ''Message undeliverable'' \<or>
     c = incomingWebhookErrorCodes d ''Media upload error''"

text \<open>
  The whole \<open>errors\<close> list of the first status, when its first error has a code outside
  the table: the one case in which the list is printed into an error message.
\<close>

definition unknown_code_errors :: "'w deps \<Rightarrow> entry list \<Rightarrow> wa_error list option" where
  "unknown_code_errors d entry =
     (case status_errors entry of
        None \<Rightarrow> None
      | Some errs \<Rightarrow>
          (case at0 errs of
             None \<Rightarrow> None
           | Some error \<Rightarrow> if is_known_code d (code error) then None else Some errs))"

subsection \<open>Sample collaborators and payloads\<close>

text \<open>
  A concrete instance, on which the theorems below are exercised. The world counts the
  collaborator calls; every collaborator succeeds. The two printers write the fields of
  the model as \<^verbatim>\<open>JSON.stringify\<close> writes them, for identifiers without characters
  that need escaping and for statuses and errors without other keys, as the samples are.
\<close>

fun nat_digits :: "nat \<Rightarrow> string" where
  "nat_digits n =
     (if n < 10 then [''0123456789'' ! n]
      else nat_digits (n div 10) @ [''0123456789'' ! (n mod 10)])"

declare nat_digits.simps [simp del]

definition int_text :: "int \<Rightarrow> string" where
  "int_text i = (if i < 0 then ''-'' @ nat_digits (nat (- i)) else nat_digits (nat i))"

fun comma_sep :: "string list \<Rightarrow> string" where
  "comma_sep [] = []"
| "comma_sep [x] = x"
| "comma_sep (x # y # ys) = x @ '','' @ comma_sep (y # ys)"

definition quoted :: "string \<Rightarrow> string" where
  "quoted s = [CHR 0x22] @ s @ [CHR 0x22]"

definition error_text :: "wa_error \<Rightarrow> string" where
  "error_text e = ''{'' @ quoted ''code'' @ '':'' @ int_text (code e) @ ''}''"

definition errors_text :: "wa_error list \<Rightarrow> string" where
  "errors_text es = ''['' @ comma_sep (map error_text es) @ '']''"

definition status_text :: "status \<Rightarrow> string" where
  "status_text st =
     ''{'' @ quoted ''recipient_id'' @ '':'' @ quoted (recipient_id st) @
     (case errors st of None \<Rightarrow> [] | Some es \<Rightarrow> '','' @ quoted ''errors'' @ '':'' @ errors_text es) @
     ''}''"

definition sample_codes :: "string \<Rightarrow> int" where
  "sample_codes k =
     (if k = ''Could not send message to unengaged user'' then 131049
      else if k = ''Message undeliverable'' then 131026
      else if k = ''Media upload error'' then 131053
      else 0)"

definition sample_deps :: "nat deps" where
  "sample_deps =
     \<lparr>WHATSAPP_PREVIEW_FROM_PHONE_NUMBER_ID = Some ''100200300400500'',
      incomingWebhookErrorCodes = sample_codes,
      JSON_stringify_status = status_text,
      JSON_stringify_errors = errors_text,
      JSON_parse = (\<lambda>s. None),
      deleteSession = (\<lambda>w sid. (None, Suc w)),
      resumeWhatsAppFlow = (\<lambda>w a. (None, Suc w)),
      parseUnknownError = (\<lambda>w e. (Inr None, Suc w)),
      captureMessage = (\<lambda>w m det. (None, Suc w)),
      addBreadcrumb = (\<lambda>w b. (None, Suc w)),
      captureException = (\<lambda>w e. (None, Suc w))\<rparr>"

text \<open>The same, with a flow engine that rejects every resumption.\<close>

definition failing_flow_deps :: "nat deps" where
  "failing_flow_deps =
     sample_deps\<lparr>resumeWhatsAppFlow := (\<lambda>w a. (Some (Error ''flow engine down''), Suc w))\<rparr>"

text \<open>The same, without the environment value.\<close>

definition unconfigured_deps :: "nat deps" where
  "unconfigured_deps = sample_deps\<lparr>WHATSAPP_PREVIEW_FROM_PHONE_NUMBER_ID := None\<rparr>"

definition payload_of :: "wa_value \<Rightarrow> entry list" where
  "payload_of v = [\<lparr>changes = [\<lparr>change_value = v\<rparr>]\<rparr>]"

definition sample_message :: message where
  "sample_message =
     \<lparr>msg_type = ''text'', msg_from = ''33612345678'',
      msg_content = JObject [(''text'', JObject [(''body'', JString ''hello'')])]\<rparr>"

definition sample_reaction :: message where
  "sample_reaction =
     \<lparr>msg_type = ''reaction'', msg_from = ''33612345678'',
      msg_content = JObject [(''reaction'', JObject [(''emoji'', JString '':)'')])]\<rparr>"

definition sample_contact :: contact where
  "sample_contact = \<lparr>profile = Some \<lparr>name = Some ''Ada''\<rparr>\<rparr>"

definition message_payload :: "entry list" where
  "message_payload =
     payload_of \<lparr>statuses = None, messages = Some [sample_message],
                 contacts = Some [sample_contact]\<rparr>"

definition reaction_payload :: "entry list" where
  "reaction_payload =
     payload_of \<lparr>statuses = None, messages = Some [sample_reaction],
                 contacts = Some [sample_contact]\<rparr>"

text \<open>A delivery-status notification: one status, no \<open>messages\<close>, no \<open>contacts\<close>.\<close>

definition status_payload :: "wa_error list option \<Rightarrow> entry list" where
  "status_payload errs =
     payload_of \<lparr>statuses = Some [\<lparr>recipient_id = ''33612345678'', errors = errs, status_rest = JObject []\<rparr>],
                 messages = None, contacts = None\<rparr>"

text \<open>
  Two deliveries with the same first message and first contact: one followed by a second
  entry, one with an empty \<open>statuses\<close> list, a second message and a second contact in the
  same change, and a second change.
\<close>

definition message_then_entry :: "entry list" where
  "message_then_entry = message_payload @ reaction_payload"

definition message_then_elements :: "entry list" where
  "message_then_elements =
     [\<lparr>changes =
         [\<lparr>change_value =
             \<lparr>statuses = Some [], messages = Some [sample_message, sample_reaction],
              contacts = Some [sample_contact, \<lparr>profile = None\<rparr>]\<rparr>\<rparr>,
          \<lparr>change_value =
             \<lparr>statuses = Some [\<lparr>recipient_id = ''33612345678'', errors = Some [], status_rest = JObject []\<rparr>],
              messages = None, contacts = None\<rparr>\<rparr>]\<rparr>]"

text \<open>
  A delivery whose first status is that of \<open>status_payload\<close> with the "unengaged user"
  error, followed by a second error, a second status, a second change and a second entry.
\<close>

definition status_then_more :: "entry list" where
  "status_then_more =
     \<lparr>changes =
        [\<lparr>change_value =
            \<lparr>statuses =
               Some [\<lparr>recipient_id = ''33612345678'',
                      errors = Some [\<lparr>code = 131049, error_data = None, error_rest = JObject []\<rparr>,
                                     \<lparr>code = 131000, error_data = None, error_rest = JObject []\<rparr>],
                      status_rest = JObject []\<rparr>,
                     \<lparr>recipient_id = ''33600000000'', errors = Some [],
                      status_rest = JObject []\<rparr>],
             messages = None, contacts = None\<rparr>\<rparr>,
         \<lparr>change_value =
            \<lparr>statuses = None, messages = Some [sample_reaction], contacts = None\<rparr>\<rparr>]\<rparr> #
     message_payload"

text \<open>A status with the "unengaged user" error in a delivery that also holds a message.\<close>

definition status_and_message_payload :: "entry list" where
  "status_and_message_payload =
     payload_of
       \<lparr>statuses = Some [\<lparr>recipient_id = ''33612345678'',
                           errors = Some [\<lparr>code = 131049, error_data = None, error_rest = JObject []\<rparr>], status_rest = JObject []\<rparr>],
        messages = Some [sample_message], contacts = Some [sample_contact]\<rparr>"

section \<open>Auxiliary facts\<close>

lemma assertEnv_present: "env_present d \<Longrightarrow> assertEnv d = Inr ()"
  by (simp add: env_present_def assertEnv_def split: option.splits)

lemma assertEnv_absent:
  "\<not> env_present d \<Longrightarrow>
   assertEnv d = Inl (TRPCError ''INTERNAL_SERVER_ERROR''
                        ''WHATSAPP_PREVIEW_FROM_PHONE_NUMBER_ID is not defined'')"
  by (simp add: env_present_def assertEnv_def split: option.splits)

lemma flow_calls_emit:
  "flow_calls (trace (emit ev w s)) = flow_calls (trace s) @ (if is_flow_call ev then [ev] else [])"
  by (simp add: flow_calls_def emit_def)

lemma rs_captureMessage:
  "reporters_succeed d \<Longrightarrow> captureMessage d w m det = (r, w') \<Longrightarrow> r = None"
  unfolding reporters_succeed_def by (metis fst_conv)

lemma rs_parseUnknownError:
  "reporters_succeed d \<Longrightarrow> parseUnknownError d w e = (r, w') \<Longrightarrow> \<exists>x. r = Inr x"
  unfolding reporters_succeed_def by (metis fst_conv)

lemma rs_addBreadcrumb:
  "reporters_succeed d \<Longrightarrow> addBreadcrumb d w b = (r, w') \<Longrightarrow> r = None"
  unfolding reporters_succeed_def by (metis fst_conv)

lemma rs_captureException:
  "reporters_succeed d \<Longrightarrow> captureException d w e = (r, w') \<Longrightarrow> r = None"
  unfolding reporters_succeed_def by (metis fst_conv)

text \<open>With reporters that succeed, nothing leaves the \<^verbatim>\<open>catch\<close> block.\<close>

lemma catch_block_ok:
  assumes "reporters_succeed d"
  shows "fst (catch_block d s err) = None"
  using assms
  by (cases err)
     (auto simp: catch_block_def call_captureMessage_def
      call_parseUnknownError_def call_addBreadcrumb_def call_captureException_def Let_def
      split: prod.splits sum.splits option.splits
      dest: rs_captureMessage rs_parseUnknownError rs_addBreadcrumb rs_captureException)

text \<open>The \<^verbatim>\<open>catch\<close> block calls neither the session store nor the flow engine.\<close>

lemma catch_block_flow_calls:
  "flow_calls (trace (snd (catch_block d s err))) = flow_calls (trace s)"
  by (cases err)
     (auto simp: catch_block_def call_captureMessage_def console_log_def
      call_parseUnknownError_def call_addBreadcrumb_def call_captureException_def Let_def
      flow_calls_emit
      split: prod.splits sum.splits option.splits)

lemma catch_block_extends:
  "\<exists>rest. trace (snd (catch_block d s err)) = trace s @ rest"
  by (cases err)
     (auto simp: catch_block_def call_captureMessage_def console_log_def
      call_parseUnknownError_def call_addBreadcrumb_def call_captureException_def Let_def
      emit_def
      split: prod.splits sum.splits option.splits)

text \<open>\<^verbatim>\<open>processErrors\<close>, branch by branch.\<close>

lemma processErrors_no_errors:
  "status_errors entry = None \<Longrightarrow> processErrors d s entry = (Inr (), s)"
  by (auto simp: status_errors_def processErrors_def split: option.splits)

lemma processErrors_empty:
  "first_status entry = Some status \<Longrightarrow> errors status = Some [] \<Longrightarrow>
   processErrors d s entry =
     (Inl (Error (''WA empty errors: '' @ JSON_stringify_status d status)), s)"
  by (simp add: processErrors_def)

lemma processErrors_unengaged:
  "first_status entry = Some status \<Longrightarrow> errors status = Some errs \<Longrightarrow> at0 errs = Some error \<Longrightarrow>
   code error = incomingWebhookErrorCodes d ''Could not send message to unengaged user'' \<Longrightarrow>
   processErrors d s entry =
     (Inl (case fst (deleteSession d (world s) (''wa-preview-'' @ recipient_id status)) of
             None \<Rightarrow> WhatsAppError ''Could not send message to unengaged user'' JUndefined
           | Some x \<Rightarrow> x),
      emit (DeleteSession (''wa-preview-'' @ recipient_id status))
        (snd (deleteSession d (world s) (''wa-preview-'' @ recipient_id status))) s)"
  by (simp add: processErrors_def call_deleteSession_def whatsAppPreviewSessionIdPrefix_def
      split: prod.splits option.splits)

lemma processErrors_unknown:
  "first_status entry = Some status \<Longrightarrow> errors status = Some errs \<Longrightarrow> at0 errs = Some error \<Longrightarrow>
   code error \<noteq> incomingWebhookErrorCodes d ''Could not send message to unengaged user'' \<Longrightarrow>
   code error \<noteq> incomingWebhookErrorCodes d ''Message undeliverable'' \<Longrightarrow>
   code error \<noteq> incomingWebhookErrorCodes d ''Media upload error'' \<Longrightarrow>
   processErrors d s entry =
     (Inl (Error (''WA unknown incoming errors: '' @ JSON_stringify_errors d errs)), s)"
  by (simp add: processErrors_def)

lemma processErrors_throws:
  "status_errors entry = Some errs \<Longrightarrow> \<exists>e. fst (processErrors d s entry) = Inl e"
  by (auto simp: status_errors_def processErrors_def split: option.splits prod.splits)

lemma try_block_throws:
  "status_errors entry = Some errs \<Longrightarrow>
   \<exists>e. try_block d s entry = (Thrown e, snd (processErrors d s entry))"
  using processErrors_throws [of entry errs d s]
  by (cases "processErrors d s entry") (auto simp: try_block_def)

text \<open>The handler, once the \<^verbatim>\<open>try\<close> block has thrown.\<close>

lemma receive_thrown:
  "env_present d \<Longrightarrow> try_block d \<lparr>world = w, trace = []\<rparr> entry = (Thrown e, s) \<Longrightarrow>
   receiveMessagePreview d w entry =
     (case catch_block d s e of
        (Some x, s') \<Rightarrow> (Inl x, s')
      | (None, s') \<Rightarrow> (Inr \<lparr>message = ''Message received''\<rparr>, s'))"
  by (simp add: receiveMessagePreview_def assertEnv_present)

lemma receive_thrown_ok:
  "env_present d \<Longrightarrow> reporters_succeed d \<Longrightarrow>
   try_block d \<lparr>world = w, trace = []\<rparr> entry = (Thrown e, s) \<Longrightarrow>
   fst (receiveMessagePreview d w entry) = Inr \<lparr>message = ''Message received''\<rparr>"
  using catch_block_ok [of d s e]
  by (cases "catch_block d s e") (auto simp: receive_thrown split: option.splits)

text \<open>The report of a failure that is not a \<^verbatim>\<open>WhatsAppError\<close>.\<close>

lemma catch_block_unclassified:
  assumes "reporters_succeed d" and "\<And>m x. err \<noteq> WhatsAppError m x"
  shows "\<exists>details w'. catch_block d s err =
           (None, \<lparr>world = w', trace = trace s @ unclassified_report err details\<rparr>)"
  using assms
  by (cases err)
     (auto simp: catch_block_def call_captureMessage_def console_log_def
      call_parseUnknownError_def call_addBreadcrumb_def call_captureException_def Let_def
      emit_def unclassified_report_def
      split: prod.splits sum.splits option.splits
      dest: rs_captureMessage rs_parseUnknownError rs_addBreadcrumb rs_captureException)

text \<open>The session and flow calls of the \<^verbatim>\<open>try\<close> block and of the handler.\<close>

lemma expected_flow_calls_no_errors:
  "status_errors entry = None \<Longrightarrow> expected_flow_calls d entry = expected_resume_call entry"
  by (auto simp: status_errors_def expected_flow_calls_def split: option.splits)

lemma processErrors_flow_calls:
  "status_errors entry = Some errs \<Longrightarrow>
   flow_calls (trace (snd (processErrors d s entry))) =
   flow_calls (trace s) @ expected_flow_calls d entry"
  by (auto simp: status_errors_def processErrors_def expected_flow_calls_def
      call_deleteSession_def flow_calls_emit
      whatsAppPreviewSessionIdPrefix_def split: option.splits prod.splits)

lemma try_block_no_errors:
  "status_errors entry = None \<Longrightarrow>
   try_block d s entry =
     (case first_message entry of
        None \<Rightarrow> (Returned \<lparr>message = ''No message content found''\<rparr>, s)
      | Some m \<Rightarrow>
          if msg_type m = ''reaction''
          then (Returned \<lparr>message = ''No message content found''\<rparr>, s)
          else
            (case resumeWhatsAppFlow d (world s)
                    \<lparr>receivedMessage = m,
                     sessionId = ''wa-preview-'' @ msg_from m,
                     contact_of = \<lparr>contact_name = contactName (extractMessageData entry),
                                   phoneNumber = msg_from m\<rparr>\<rparr> of
               (r, w') \<Rightarrow>
                 ((case r of None \<Rightarrow> Completed | Some e \<Rightarrow> Thrown e),
                  emit (ResumeWhatsAppFlow
                          \<lparr>receivedMessage = m,
                           sessionId = ''wa-preview-'' @ msg_from m,
                           contact_of = \<lparr>contact_name = contactName (extractMessageData entry),
                                         phoneNumber = msg_from m\<rparr>\<rparr>) w' s)))"
  by (simp add: try_block_def processErrors_no_errors extractMessageData_def
      call_resumeWhatsAppFlow_def whatsAppPreviewSessionIdPrefix_def Let_def
      split: option.splits prod.splits)

lemma try_block_flow_calls:
  "flow_calls (trace (snd (try_block d s entry))) = flow_calls (trace s) @ expected_flow_calls d entry"
proof (cases "status_errors entry")
  case None
  then show ?thesis
    by (simp add: try_block_no_errors expected_flow_calls_no_errors expected_resume_call_def
        flow_calls_emit split: option.splits prod.splits)
next
  case (Some errs)
  from try_block_throws [OF Some, of d s] processErrors_flow_calls [OF Some, of d s]
  show ?thesis by auto
qed

lemma receive_flow_calls:
  "flow_calls (trace (snd (receiveMessagePreview d w entry))) =
     (if env_present d then expected_flow_calls d entry else [])"
proof (cases "env_present d")
  case False
  then show ?thesis
    by (simp add: receiveMessagePreview_def assertEnv_absent flow_calls_def)
next
  case True
  obtain out s where t: "try_block d \<lparr>world = w, trace = []\<rparr> entry = (out, s)"
    by (cases "try_block d \<lparr>world = w, trace = []\<rparr> entry")
  have f: "flow_calls (trace s) = expected_flow_calls d entry"
    using try_block_flow_calls [of d "\<lparr>world = w, trace = []\<rparr>" entry] t
    by (simp add: flow_calls_def)
  show ?thesis
  proof (cases out)
    case (Thrown e)
    obtain r s' where c: "catch_block d s e = (r, s')"
      by (cases "catch_block d s e")
    with catch_block_flow_calls [of d s e] f have "flow_calls (trace s') = expected_flow_calls d entry"
      by simp
    with True t Thrown c show ?thesis
      by (simp add: receiveMessagePreview_def assertEnv_present split: option.splits)
  qed (use True t f in \<open>simp_all add: receiveMessagePreview_def assertEnv_present\<close>)
qed

text \<open>From the trace to single calls.\<close>

lemma flow_call_in_trace:
  "ev \<in> set tr \<Longrightarrow> is_flow_call ev \<Longrightarrow> ev \<in> set (flow_calls tr)"
  by (simp add: flow_calls_def)

lemma first_message_payload_messages:
  "first_message entry = (case payload_messages entry of None \<Rightarrow> None | Some ms \<Rightarrow> at0 ms)"
  by (simp add: first_message_def payload_messages_def split: option.splits)

lemma receive_throws_trace:
  assumes "env_present d" and "status_errors entry = Some errs"
  shows "\<exists>rest. trace (snd (receiveMessagePreview d w entry)) =
           trace (snd (processErrors d \<lparr>world = w, trace = []\<rparr> entry)) @ rest"
proof -
  from try_block_throws [OF assms(2), of d "\<lparr>world = w, trace = []\<rparr>"]
  obtain e where t: "try_block d \<lparr>world = w, trace = []\<rparr> entry =
      (Thrown e, snd (processErrors d \<lparr>world = w, trace = []\<rparr> entry))" ..
  obtain r s' where c: "catch_block d (snd (processErrors d \<lparr>world = w, trace = []\<rparr> entry)) e = (r, s')"
    by (cases "catch_block d (snd (processErrors d \<lparr>world = w, trace = []\<rparr> entry)) e")
  from catch_block_extends [of d "snd (processErrors d \<lparr>world = w, trace = []\<rparr> entry)" e] c
  obtain rest where "trace s' = trace (snd (processErrors d \<lparr>world = w, trace = []\<rparr> entry)) @ rest"
    by auto
  with receive_thrown [OF assms(1) t] c show ?thesis
    by (auto split: option.splits)
qed

lemma receive_unclassified:
  assumes "env_present d" and "reporters_succeed d"
    and "processErrors d \<lparr>world = w, trace = []\<rparr> entry = (Inl (Error msg), \<lparr>world = w, trace = []\<rparr>)"
  shows "\<exists>details w'. receiveMessagePreview d w entry =
           (Inr \<lparr>message = ''Message received''\<rparr>,
            \<lparr>world = w', trace = unclassified_report (Error msg) details\<rparr>)"
proof -
  have t: "try_block d \<lparr>world = w, trace = []\<rparr> entry = (Thrown (Error msg), \<lparr>world = w, trace = []\<rparr>)"
    by (simp add: try_block_def assms(3))
  from catch_block_unclassified [OF assms(2), of "Error msg" "\<lparr>world = w, trace = []\<rparr>"]
  obtain details w' where "catch_block d \<lparr>world = w, trace = []\<rparr> (Error msg) =
      (None, \<lparr>world = w', trace = unclassified_report (Error msg) details\<rparr>)"
    by auto
  with receive_thrown [OF assms(1) t] show ?thesis by auto
qed

lemma expected_resume_call_none:
  "first_message entry = None \<or> (\<exists>m. first_message entry = Some m \<and> msg_type m = ''reaction'') \<Longrightarrow>
   expected_resume_call entry = []"
  by (auto simp: expected_resume_call_def)

lemma expected_flow_calls_no_resume:
  "expected_resume_call entry = [] \<Longrightarrow> ResumeWhatsAppFlow a \<notin> set (expected_flow_calls d entry)"
  by (auto simp: expected_flow_calls_def split: option.splits)

lemma expected_flow_calls_errors_no_resume:
  "status_errors entry = Some errs \<Longrightarrow> ResumeWhatsAppFlow a \<notin> set (expected_flow_calls d entry)"
  by (auto simp: expected_flow_calls_def status_errors_def split: option.splits)

lemma expected_flow_calls_not_both:
  "DeleteSession sid \<in> set (expected_flow_calls d entry) \<Longrightarrow>
   ResumeWhatsAppFlow a \<notin> set (expected_flow_calls d entry)"
  by (auto simp: expected_flow_calls_def expected_resume_call_def split: option.splits if_splits)

lemma expected_flow_calls_length: "length (expected_flow_calls d entry) \<le> 1"
  by (auto simp: expected_flow_calls_def expected_resume_call_def split: option.splits)

lemma not_resumed:
  assumes "ResumeWhatsAppFlow a \<notin> set (expected_flow_calls d entry)"
  shows "ResumeWhatsAppFlow a \<notin> set (trace (snd (receiveMessagePreview d w entry)))"
proof
  assume "ResumeWhatsAppFlow a \<in> set (trace (snd (receiveMessagePreview d w entry)))"
  then have "ResumeWhatsAppFlow a \<in> set (flow_calls (trace (snd (receiveMessagePreview d w entry))))"
    by (rule flow_call_in_trace) simp
  with assms show False
    by (simp add: receive_flow_calls split: if_splits)
qed

text \<open>What \<^verbatim>\<open>processErrors\<close> and \<^verbatim>\<open>extractMessageData\<close> read of a payload.\<close>

lemma head_only_at0: "head_only xs = head_only ys \<Longrightarrow> at0 xs = at0 ys"
  by (cases xs; cases ys; simp)

lemma head_only_Nil: "head_only xs = [] \<longleftrightarrow> xs = []"
  by (cases xs) simp_all

lemma first_elements_processErrors:
  assumes "first_elements a = first_elements b"
    and "unknown_code_errors d a = unknown_code_errors d b"
  shows "processErrors d s a = processErrors d s b"
proof (cases "first_status a")
  case None
  with assms(1) have "first_status b = None"
    by (simp add: first_elements_def)
  with None show ?thesis
    by (simp add: processErrors_def)
next
  case (Some sa)
  with assms(1) obtain sb where sb: "first_status b = Some sb"
    and cut: "sa\<lparr>errors := map_option head_only (errors sa)\<rparr> =
              sb\<lparr>errors := map_option head_only (errors sb)\<rparr>"
    by (cases "first_status b") (auto simp: first_elements_def)
  from cut have "recipient_id (sa\<lparr>errors := map_option head_only (errors sa)\<rparr>) =
                 recipient_id (sb\<lparr>errors := map_option head_only (errors sb)\<rparr>)"
    by (rule arg_cong)
  then have rid: "recipient_id sa = recipient_id sb"
    by simp
  from cut have "status_rest (sa\<lparr>errors := map_option head_only (errors sa)\<rparr>) =
                 status_rest (sb\<lparr>errors := map_option head_only (errors sb)\<rparr>)"
    by (rule arg_cong)
  then have rest: "status_rest sa = status_rest sb"
    by simp
  from cut have "errors (sa\<lparr>errors := map_option head_only (errors sa)\<rparr>) =
                 errors (sb\<lparr>errors := map_option head_only (errors sb)\<rparr>)"
    by (rule arg_cong)
  then have hd: "map_option head_only (errors sa) = map_option head_only (errors sb)"
    by simp
  have whole: "sa = sb" if "errors sa = errors sb"
    by (rule status.equality) (use that rid rest in simp_all)
  show ?thesis
  proof (cases "errors sa")
    case None
    with hd have "errors sb = None" by simp
    with None Some sb show ?thesis
      by (simp add: processErrors_def)
  next
    case ea: (Some ea)
    with hd obtain eb where eb: "errors sb = Some eb" and cut_eq: "head_only ea = head_only eb"
      by (cases "errors sb") auto
    from cut_eq have at: "at0 ea = at0 eb"
      by (rule head_only_at0)
    show ?thesis
    proof (cases "at0 ea")
      case None
      then have "ea = []"
        by (cases ea) simp_all
      with cut_eq have "head_only eb = []"
        by simp
      then have "eb = []"
        by (simp add: head_only_Nil)
      with \<open>ea = []\<close> ea eb have "sa = sb"
        by (simp add: whole)
      with Some sb show ?thesis
        by (simp add: processErrors_def)
    next
      case e: (Some e)
      show ?thesis
      proof (cases "is_known_code d (code e)")
        case True
        with Some sb ea eb e at rid show ?thesis
          by (auto simp: processErrors_def is_known_code_def)
      next
        case False
        with assms(2) Some sb ea eb e at have "ea = eb"
          by (simp add: unknown_code_errors_def status_errors_def)
        with ea eb have "sa = sb"
          by (simp add: whole)
        with Some sb show ?thesis
          by (simp add: processErrors_def)
      qed
    qed
  qed
qed

lemma first_elements_extract:
  "first_elements a = first_elements b \<Longrightarrow> extractMessageData a = extractMessageData b"
  by (simp add: first_elements_def extractMessageData_def)

text \<open>Unfolding sets for running the model on the samples.\<close>

lemmas run_defs =
  receiveMessagePreview_def assertEnv_def try_block_def catch_block_def processErrors_def
  extractMessageData_def safeJsonParse_def first_status_def first_message_def
  first_contact_def first_value_def whatsAppPreviewSessionIdPrefix_def
  call_deleteSession_def call_resumeWhatsAppFlow_def call_parseUnknownError_def
  call_captureMessage_def call_addBreadcrumb_def call_captureException_def
  console_log_def emit_def Let_def

lemmas sample_defs =
  sample_deps_def failing_flow_deps_def unconfigured_deps_def sample_codes_def
  payload_of_def message_payload_def reaction_payload_def status_payload_def
  sample_message_def sample_reaction_def sample_contact_def
  message_then_entry_def message_then_elements_def status_then_more_def
  status_and_message_payload_def

section \<open>The properties\<close>

text \<open>
  C1. With the environment value present and reporters that do not fail, the handler
  returns a success value \<open>{message: string}\<close> on every payload, whatever the session
  store and the flow engine do: no failure of error processing, of extraction or of the
  flow resumption reaches the transport layer. The message is one of the two literals of
  the file.
\<close>

theorem C1_handler_always_acknowledges:
  assumes "env_present d" and "reporters_succeed d"
  shows "fst (receiveMessagePreview d w entry) = Inr \<lparr>message = ''No message content found''\<rparr> \<or>
         fst (receiveMessagePreview d w entry) = Inr \<lparr>message = ''Message received''\<rparr>"
proof -
  obtain out s where t: "try_block d \<lparr>world = w, trace = []\<rparr> entry = (out, s)"
    by (cases "try_block d \<lparr>world = w, trace = []\<rparr> entry")
  show ?thesis
  proof (cases out)
    case (Returned r)
    with t have "r = \<lparr>message = ''No message content found''\<rparr>"
      by (auto simp: try_block_def Let_def split: prod.splits sum.splits option.splits if_splits)
    with t Returned assms(1) show ?thesis
      by (simp add: receiveMessagePreview_def assertEnv_present)
  next
    case Completed
    with t assms(1) show ?thesis
      by (simp add: receiveMessagePreview_def assertEnv_present)
  next
    case (Thrown e)
    with t receive_thrown_ok [OF assms, of w entry e s] show ?thesis
      by simp
  qed
qed

theorem C1_witness:
  "env_present failing_flow_deps \<and> reporters_succeed failing_flow_deps \<and>
   fst (receiveMessagePreview failing_flow_deps 0 message_payload) =
     Inr \<lparr>message = ''Message received''\<rparr>"
proof -
  have e: "env_present failing_flow_deps"
    by (simp add: env_present_def sample_defs)
  have r: "reporters_succeed failing_flow_deps"
    by (simp add: reporters_succeed_def sample_defs)
  have "fst (receiveMessagePreview failing_flow_deps 0 message_payload) \<noteq>
          Inr \<lparr>message = ''No message content found''\<rparr>"
    by (simp add: run_defs sample_defs)
  with C1_handler_always_acknowledges [OF e r, of 0 message_payload] e r show ?thesis
    by simp
qed

text \<open>
  C2. When the first error of the first status carries the "unengaged user" code (and the
  environment value is present), \<^verbatim>\<open>processErrors\<close> calls \<open>deleteSession\<close> with
  \<open>"wa-preview-" + recipient_id\<close> and throws from the state that the awaited deletion
  left: the classified \<^verbatim>\<open>WhatsAppError\<close> when the deletion resolved, the deletion's own
  failure when it rejected. In the handler's trace that deletion is the first call, the
  only call to the session store, and the flow engine is not called.
\<close>

theorem C2_unengaged_deletes_session:
  assumes "env_present d"
    and "first_status entry = Some status"
    and "errors status = Some errs"
    and "at0 errs = Some error"
    and "code error = incomingWebhookErrorCodes d ''Could not send message to unengaged user''"
    and "sid = ''wa-preview-'' @ recipient_id status"
  shows "processErrors d \<lparr>world = w, trace = []\<rparr> entry =
           (Inl (case fst (deleteSession d w sid) of
                   None \<Rightarrow> WhatsAppError ''Could not send message to unengaged user'' JUndefined
                 | Some x \<Rightarrow> x),
            \<lparr>world = snd (deleteSession d w sid), trace = [DeleteSession sid]\<rparr>) \<and>
         flow_calls (trace (snd (receiveMessagePreview d w entry))) = [DeleteSession sid] \<and>
         (\<exists>rest. trace (snd (receiveMessagePreview d w entry)) = DeleteSession sid # rest)"
proof -
  have se: "status_errors entry = Some errs"
    using assms(2,3) by (simp add: status_errors_def)
  have pe: "processErrors d \<lparr>world = w, trace = []\<rparr> entry =
           (Inl (case fst (deleteSession d w sid) of
                   None \<Rightarrow> WhatsAppError ''Could not send message to unengaged user'' JUndefined
                 | Some x \<Rightarrow> x),
            \<lparr>world = snd (deleteSession d w sid), trace = [DeleteSession sid]\<rparr>)"
    using processErrors_unengaged [OF assms(2-5), of "\<lparr>world = w, trace = []\<rparr>"]
    by (simp add: assms(6) emit_def)
  have fc: "flow_calls (trace (snd (receiveMessagePreview d w entry))) = [DeleteSession sid]"
    using assms by (simp add: receive_flow_calls expected_flow_calls_def)
  from receive_throws_trace [OF assms(1) se, of w] pe
  have "\<exists>rest. trace (snd (receiveMessagePreview d w entry)) = DeleteSession sid # rest"
    by simp
  with pe fc show ?thesis by simp
qed

theorem C2_witness:
  "env_present sample_deps \<and>
   first_status (status_payload (Some [\<lparr>code = 131049, error_data = None, error_rest = JObject []\<rparr>])) =
     Some \<lparr>recipient_id = ''33612345678'',
           errors = Some [\<lparr>code = 131049, error_data = None, error_rest = JObject []\<rparr>], status_rest = JObject []\<rparr> \<and>
   code \<lparr>code = 131049, error_data = None, error_rest = JObject []\<rparr> =
     incomingWebhookErrorCodes sample_deps ''Could not send message to unengaged user'' \<and>
   flow_calls (trace (snd (receiveMessagePreview sample_deps 0
      (status_payload (Some [\<lparr>code = 131049, error_data = None, error_rest = JObject []\<rparr>]))))) =
     [DeleteSession ''wa-preview-33612345678'']"
proof -
  have e: "env_present sample_deps"
    by (simp add: env_present_def sample_defs)
  have s: "first_status (status_payload (Some [\<lparr>code = 131049, error_data = None, error_rest = JObject []\<rparr>])) =
             Some \<lparr>recipient_id = ''33612345678'',
                   errors = Some [\<lparr>code = 131049, error_data = None, error_rest = JObject []\<rparr>], status_rest = JObject []\<rparr>"
    by (simp add: run_defs sample_defs)
  have c: "code \<lparr>code = 131049, error_data = None, error_rest = JObject []\<rparr> =
             incomingWebhookErrorCodes sample_deps ''Could not send message to unengaged user''"
    by (simp add: sample_defs)
  from C2_unengaged_deletes_session
         [OF e s _ _ c refl, of "[\<lparr>code = 131049, error_data = None, error_rest = JObject []\<rparr>]" 0] e s c
  show ?thesis by simp
qed

text \<open>
  C3. A payload whose first message is not a reaction and whose first status, if any, has
  no \<open>errors\<close> field (environment value present): the flow engine is called exactly once,
  as the first call of the handler, with the message, the session id
  \<open>"wa-preview-" + message.from\<close> and the extracted contact name and phone number, and
  the session store is not called. When that call resolves, the handler makes no other
  call and returns \<open>{message: "Message received"}\<close>.
\<close>

theorem C3_message_resumes_flow:
  assumes "env_present d"
    and "status_errors entry = None"
    and "first_message entry = Some m"
    and "msg_type m \<noteq> ''reaction''"
    and "args = \<lparr>receivedMessage = m,
                 sessionId = ''wa-preview-'' @ msg_from m,
                 contact_of = \<lparr>contact_name = contactName (extractMessageData entry),
                               phoneNumber = contactPhoneNumber (extractMessageData entry)\<rparr>\<rparr>"
  shows "flow_calls (trace (snd (receiveMessagePreview d w entry))) = [ResumeWhatsAppFlow args] \<and>
         (\<exists>rest. trace (snd (receiveMessagePreview d w entry)) = ResumeWhatsAppFlow args # rest) \<and>
         (fst (resumeWhatsAppFlow d w args) = None \<longrightarrow>
            receiveMessagePreview d w entry =
              (Inr \<lparr>message = ''Message received''\<rparr>,
               \<lparr>world = snd (resumeWhatsAppFlow d w args), trace = [ResumeWhatsAppFlow args]\<rparr>))"
proof -
  have a: "args = \<lparr>receivedMessage = m,
                 sessionId = ''wa-preview-'' @ msg_from m,
                 contact_of = \<lparr>contact_name = contactName (extractMessageData entry),
                               phoneNumber = msg_from m\<rparr>\<rparr>"
    using assms(3,5) by (simp add: extractMessageData_def)
  obtain r w' where r: "resumeWhatsAppFlow d w args = (r, w')"
    by (cases "resumeWhatsAppFlow d w args")
  have t: "try_block d \<lparr>world = w, trace = []\<rparr> entry =
             ((case r of None \<Rightarrow> Completed | Some e \<Rightarrow> Thrown e),
              \<lparr>world = w', trace = [ResumeWhatsAppFlow args]\<rparr>)"
    using assms(3,4) r a by (simp add: try_block_no_errors [OF assms(2)] emit_def)
  have fc: "flow_calls (trace (snd (receiveMessagePreview d w entry))) = [ResumeWhatsAppFlow args]"
    using assms(1,3,4) a
    by (simp add: receive_flow_calls expected_flow_calls_no_errors [OF assms(2)]
        expected_resume_call_def)
  have tr: "\<exists>rest. trace (snd (receiveMessagePreview d w entry)) = ResumeWhatsAppFlow args # rest"
  proof (cases r)
    case None
    with t assms(1) show ?thesis
      by (simp add: receiveMessagePreview_def assertEnv_present)
  next
    case (Some e)
    obtain x s' where c: "catch_block d \<lparr>world = w', trace = [ResumeWhatsAppFlow args]\<rparr> e = (x, s')"
      by (cases "catch_block d \<lparr>world = w', trace = [ResumeWhatsAppFlow args]\<rparr> e")
    from catch_block_extends [of d "\<lparr>world = w', trace = [ResumeWhatsAppFlow args]\<rparr>" e] c
    obtain rest where "trace s' = ResumeWhatsAppFlow args # rest" by auto
    with receive_thrown [OF assms(1), of w entry e] t Some c show ?thesis
      by (auto split: option.splits)
  qed
  have ok: "fst (resumeWhatsAppFlow d w args) = None \<longrightarrow>
            receiveMessagePreview d w entry =
              (Inr \<lparr>message = ''Message received''\<rparr>,
               \<lparr>world = snd (resumeWhatsAppFlow d w args), trace = [ResumeWhatsAppFlow args]\<rparr>)"
    using t r assms(1) by (simp add: receiveMessagePreview_def assertEnv_present)
  from fc tr ok show ?thesis by simp
qed

theorem C3_witness:
  "env_present sample_deps \<and> status_errors message_payload = None \<and>
   first_message message_payload = Some sample_message \<and>
   msg_type sample_message \<noteq> ''reaction'' \<and>
   receiveMessagePreview sample_deps 0 message_payload =
     (Inr \<lparr>message = ''Message received''\<rparr>,
      \<lparr>world = 1,
       trace = [ResumeWhatsAppFlow
                  \<lparr>receivedMessage = sample_message,
                   sessionId = ''wa-preview-33612345678'',
                   contact_of = \<lparr>contact_name = ''Ada'', phoneNumber = ''33612345678''\<rparr>\<rparr>]\<rparr>)"
proof -
  have e: "env_present sample_deps"
    by (simp add: env_present_def sample_defs)
  have s: "status_errors message_payload = None"
    by (simp add: status_errors_def run_defs sample_defs)
  have m: "first_message message_payload = Some sample_message"
    by (simp add: run_defs sample_defs)
  have t: "msg_type sample_message \<noteq> ''reaction''"
    by (simp add: sample_defs)
  from C3_message_resumes_flow [OF e s m t refl, of 0] e s m t show ?thesis
    by (simp add: run_defs sample_defs)
qed

text \<open>
  C4, as the code has it. When \<open>messages\<close> of the first entry's first change is absent or
  holds only a reaction (environment value present), the flow engine is never called; and
  when, in addition, the first status has no \<open>errors\<close> field, the handler makes no call at
  all and returns \<open>{message: "No message content found"}\<close>.
\<close>

theorem C4_no_message_no_resumption:
  assumes "env_present d"
    and "payload_messages entry = None \<or>
         (\<exists>m. payload_messages entry = Some [m] \<and> msg_type m = ''reaction'')"
  shows "(\<forall>a. ResumeWhatsAppFlow a \<notin> set (trace (snd (receiveMessagePreview d w entry)))) \<and>
         (status_errors entry = None \<longrightarrow>
            receiveMessagePreview d w entry =
              (Inr \<lparr>message = ''No message content found''\<rparr>, \<lparr>world = w, trace = []\<rparr>))"
proof -
  have fm: "first_message entry = None \<or>
            (\<exists>m. first_message entry = Some m \<and> msg_type m = ''reaction'')"
    using assms(2) by (auto simp: first_message_payload_messages)
  then have "expected_resume_call entry = []"
    by (rule expected_resume_call_none)
  then have nr: "\<forall>a. ResumeWhatsAppFlow a \<notin> set (trace (snd (receiveMessagePreview d w entry)))"
    by (simp add: not_resumed expected_flow_calls_no_resume)
  have "status_errors entry = None \<longrightarrow>
            receiveMessagePreview d w entry =
              (Inr \<lparr>message = ''No message content found''\<rparr>, \<lparr>world = w, trace = []\<rparr>)"
  proof
    assume se: "status_errors entry = None"
    from fm have "try_block d \<lparr>world = w, trace = []\<rparr> entry =
        (Returned \<lparr>message = ''No message content found''\<rparr>, \<lparr>world = w, trace = []\<rparr>)"
      by (auto simp: try_block_no_errors [OF se])
    with assms(1) show "receiveMessagePreview d w entry =
              (Inr \<lparr>message = ''No message content found''\<rparr>, \<lparr>world = w, trace = []\<rparr>)"
      by (simp add: receiveMessagePreview_def assertEnv_present)
  qed
  with nr show ?thesis by simp
qed

theorem C4_witness:
  "env_present sample_deps \<and>
   (payload_messages reaction_payload = None \<or>
    (\<exists>m. payload_messages reaction_payload = Some [m] \<and> msg_type m = ''reaction'')) \<and>
   status_errors reaction_payload = None \<and>
   receiveMessagePreview sample_deps 0 reaction_payload =
     (Inr \<lparr>message = ''No message content found''\<rparr>, \<lparr>world = 0, trace = []\<rparr>)"
proof -
  have e: "env_present sample_deps"
    by (simp add: env_present_def sample_defs)
  have p: "payload_messages reaction_payload = None \<or>
    (\<exists>m. payload_messages reaction_payload = Some [m] \<and> msg_type m = ''reaction'')"
    by (simp add: payload_messages_def run_defs sample_defs)
  have s: "status_errors reaction_payload = None"
    by (simp add: status_errors_def run_defs sample_defs)
  from C4_no_message_no_resumption [OF e p, of 0] e p s show ?thesis
    by simp
qed

text \<open>
  C4 as the specification words it fails on a delivery-status notification: \<open>messages\<close> is absent, the
  status carries the "unengaged user" error, and the handler answers
  \<open>{message: "Message received"}\<close>.
\<close>

theorem C4_counterexample:
  "env_present sample_deps \<and>
   payload_messages (status_payload (Some [\<lparr>code = 131049, error_data = None, error_rest = JObject []\<rparr>])) = None \<and>
   fst (receiveMessagePreview sample_deps 0
          (status_payload (Some [\<lparr>code = 131049, error_data = None, error_rest = JObject []\<rparr>]))) =
     Inr \<lparr>message = ''Message received''\<rparr> \<and>
   fst (receiveMessagePreview sample_deps 0
          (status_payload (Some [\<lparr>code = 131049, error_data = None, error_rest = JObject []\<rparr>]))) \<noteq>
     Inr \<lparr>message = ''No message content found''\<rparr>"
  by (simp add: env_present_def payload_messages_def run_defs sample_defs)

text \<open>
  C5. When the \<open>errors\<close> field of the first status is present and empty,
  \<^verbatim>\<open>processErrors\<close> throws a plain \<^verbatim>\<open>Error\<close> (not a \<^verbatim>\<open>WhatsAppError\<close>) whose message
  ends with the serialised status, without calling anything. With the environment value
  present and reporters that do not fail, the handler reports exactly that error on the
  unclassified path (console, \<open>parseUnknownError\<close>, breadcrumb, \<open>captureException\<close>) and
  returns \<open>{message: "Message received"}\<close>.
\<close>

theorem C5_empty_errors_unclassified:
  assumes "env_present d" and "reporters_succeed d"
    and "first_status entry = Some status"
    and "errors status = Some []"
    and "err = Error (''WA empty errors: '' @ JSON_stringify_status d status)"
  shows "processErrors d s entry = (Inl err, s) \<and>
         (\<forall>m x. err \<noteq> WhatsAppError m x) \<and>
         (\<exists>details w'. receiveMessagePreview d w entry =
            (Inr \<lparr>message = ''Message received''\<rparr>,
             \<lparr>world = w', trace = unclassified_report err details\<rparr>))"
  using processErrors_empty [OF assms(3,4), of d]
    receive_unclassified [OF assms(1,2), of w entry "''WA empty errors: '' @ JSON_stringify_status d status"]
  by (simp add: assms(5))

theorem C5_witness:
  "env_present sample_deps \<and> reporters_succeed sample_deps \<and>
   first_status (status_payload (Some [])) =
     Some \<lparr>recipient_id = ''33612345678'', errors = Some [], status_rest = JObject []\<rparr> \<and>
   (\<exists>details w'. receiveMessagePreview sample_deps 0 (status_payload (Some [])) =
      (Inr \<lparr>message = ''Message received''\<rparr>,
       \<lparr>world = w',
        trace = unclassified_report
          (Error (''WA empty errors: '' @
             status_text \<lparr>recipient_id = ''33612345678'', errors = Some [], status_rest = JObject []\<rparr>)) details\<rparr>))"
proof -
  have e: "env_present sample_deps"
    by (simp add: env_present_def sample_defs)
  have r: "reporters_succeed sample_deps"
    by (simp add: reporters_succeed_def sample_defs)
  have s: "first_status (status_payload (Some [])) =
     Some \<lparr>recipient_id = ''33612345678'', errors = Some [], status_rest = JObject []\<rparr>"
    by (simp add: run_defs sample_defs)
  from C5_empty_errors_unclassified [OF e r s _ refl, of "\<lparr>world = 0, trace = []\<rparr>" 0] e r s
  show ?thesis
    by (simp add: sample_deps_def)
qed

text \<open>
  C6. When the code of the first error of the first status is none of the three codes of
  the table, \<^verbatim>\<open>processErrors\<close> throws a plain \<^verbatim>\<open>Error\<close> (not a \<^verbatim>\<open>WhatsAppError\<close>) whose
  message ends with the serialised \<open>errors\<close> list, without calling anything. With the
  environment value present and reporters that do not fail, the handler reports that
  error on the unclassified path, calls neither \<open>deleteSession\<close> nor
  \<open>resumeWhatsAppFlow\<close>, and returns \<open>{message: "Message received"}\<close>.
\<close>

theorem C6_unknown_code_unclassified:
  assumes "env_present d" and "reporters_succeed d"
    and "first_status entry = Some status"
    and "errors status = Some errs"
    and "at0 errs = Some error"
    and "\<not> is_known_code d (code error)"
    and "err = Error (''WA unknown incoming errors: '' @ JSON_stringify_errors d errs)"
  shows "processErrors d s entry = (Inl err, s) \<and>
         (\<forall>m x. err \<noteq> WhatsAppError m x) \<and>
         (\<exists>details w'. receiveMessagePreview d w entry =
            (Inr \<lparr>message = ''Message received''\<rparr>,
             \<lparr>world = w', trace = unclassified_report err details\<rparr>)) \<and>
         flow_calls (trace (snd (receiveMessagePreview d w entry))) = []"
proof -
  have pe: "processErrors d s entry = (Inl err, s)" for s
    using assms(6) processErrors_unknown [OF assms(3-5), of d s]
    by (simp add: is_known_code_def assms(7))
  have fc: "flow_calls (trace (snd (receiveMessagePreview d w entry))) = []"
    using assms(1,3-6) by (simp add: receive_flow_calls expected_flow_calls_def is_known_code_def)
  from receive_unclassified [OF assms(1,2), of w entry
      "''WA unknown incoming errors: '' @ JSON_stringify_errors d errs"] pe fc
  show ?thesis by (simp add: assms(7))
qed

theorem C6_witness:
  "env_present sample_deps \<and> reporters_succeed sample_deps \<and>
   \<not> is_known_code sample_deps 131000 \<and>
   fst (receiveMessagePreview sample_deps 0
          (status_payload (Some [\<lparr>code = 131000, error_data = None, error_rest = JObject []\<rparr>]))) =
     Inr \<lparr>message = ''Message received''\<rparr> \<and>
   flow_calls (trace (snd (receiveMessagePreview sample_deps 0
          (status_payload (Some [\<lparr>code = 131000, error_data = None, error_rest = JObject []\<rparr>]))))) = []"
proof -
  have e: "env_present sample_deps"
    by (simp add: env_present_def sample_defs)
  have r: "reporters_succeed sample_deps"
    by (simp add: reporters_succeed_def sample_defs)
  have s: "first_status (status_payload (Some [\<lparr>code = 131000, error_data = None, error_rest = JObject []\<rparr>])) =
     Some \<lparr>recipient_id = ''33612345678'',
           errors = Some [\<lparr>code = 131000, error_data = None, error_rest = JObject []\<rparr>], status_rest = JObject []\<rparr>"
    by (simp add: run_defs sample_defs)
  have k: "\<not> is_known_code sample_deps (code \<lparr>code = 131000, error_data = None, error_rest = JObject []\<rparr>)"
    by (simp add: is_known_code_def sample_defs)
  from C6_unknown_code_unclassified [OF e r s _ _ k refl,
      of "[\<lparr>code = 131000, error_data = None, error_rest = JObject []\<rparr>]" "\<lparr>world = 0, trace = []\<rparr>" 0] e r k
  show ?thesis by auto
qed

text \<open>
  C7. Without the environment value (undefined, or the empty string, which the truthiness
  test treats alike) the handler fails with the \<open>INTERNAL_SERVER_ERROR\<close> of
  \<^verbatim>\<open>assertEnv\<close>, whatever the payload: the failure reaches the caller, the trace is
  empty and the world is untouched, so no collaborator was called.
\<close>

theorem C7_missing_env_fails_first:
  assumes "\<not> env_present d"
  shows "receiveMessagePreview d w entry =
           (Inl (TRPCError ''INTERNAL_SERVER_ERROR''
                   ''WHATSAPP_PREVIEW_FROM_PHONE_NUMBER_ID is not defined''),
            \<lparr>world = w, trace = []\<rparr>)"
  using assms by (simp add: receiveMessagePreview_def assertEnv_absent)

theorem C7_witness:
  "WHATSAPP_PREVIEW_FROM_PHONE_NUMBER_ID unconfigured_deps = None \<and>
   \<not> env_present unconfigured_deps \<and>
   receiveMessagePreview unconfigured_deps 0 message_payload =
     (Inl (TRPCError ''INTERNAL_SERVER_ERROR''
             ''WHATSAPP_PREVIEW_FROM_PHONE_NUMBER_ID is not defined''),
      \<lparr>world = 0, trace = []\<rparr>)"
proof -
  have n: "WHATSAPP_PREVIEW_FROM_PHONE_NUMBER_ID unconfigured_deps = None"
    by (simp add: sample_defs)
  then have e: "\<not> env_present unconfigured_deps"
    by (simp add: env_present_def)
  from C7_missing_env_fails_first [OF e, of 0 message_payload] n e show ?thesis
    by simp
qed

text \<open>
  C8, as the code has it. The outcome of the handler (its result, the final world and the
  whole trace of collaborator calls with their arguments) is the same for two payloads
  that agree on the first elements of the first entry's first change (the first status,
  whole but for the errors after its first error; the first message; the first contact)
  and, in the one case where the first error's code is outside the table, on the whole
  \<open>errors\<close> list of the first status, which the unclassified error's message serialises.
\<close>

theorem C8_first_elements_decide:
  assumes "first_elements a = first_elements b"
    and "unknown_code_errors d a = unknown_code_errors d b"
  shows "receiveMessagePreview d w a = receiveMessagePreview d w b"
proof -
  have pe: "processErrors d s a = processErrors d s b" for s
    by (rule first_elements_processErrors [OF assms])
  have ex: "extractMessageData a = extractMessageData b"
    by (rule first_elements_extract [OF assms(1)])
  have tb: "try_block d s a = try_block d s b" for s
    unfolding try_block_def pe ex by (rule refl)
  show ?thesis
    unfolding receiveMessagePreview_def tb by (rule refl)
qed

theorem C8_witness:
  "first_elements (status_payload (Some [\<lparr>code = 131049, error_data = None, error_rest = JObject []\<rparr>])) =
     first_elements status_then_more \<and>
   unknown_code_errors sample_deps
       (status_payload (Some [\<lparr>code = 131049, error_data = None, error_rest = JObject []\<rparr>])) =
     unknown_code_errors sample_deps status_then_more \<and>
   receiveMessagePreview sample_deps 0
       (status_payload (Some [\<lparr>code = 131049, error_data = None, error_rest = JObject []\<rparr>])) =
     receiveMessagePreview sample_deps 0 status_then_more \<and>
   first_elements message_then_entry = first_elements message_then_elements \<and>
   unknown_code_errors sample_deps message_then_entry =
     unknown_code_errors sample_deps message_then_elements \<and>
   receiveMessagePreview sample_deps 0 message_then_entry =
     receiveMessagePreview sample_deps 0 message_then_elements"
proof -
  let ?p = "status_payload (Some [\<lparr>code = 131049, error_data = None, error_rest = JObject []\<rparr>])"
  have f: "first_elements ?p = first_elements status_then_more"
    by (simp add: first_elements_def run_defs sample_defs)
  have u: "unknown_code_errors sample_deps ?p = unknown_code_errors sample_deps status_then_more"
    by (simp add: unknown_code_errors_def status_errors_def is_known_code_def run_defs sample_defs)
  have f': "first_elements message_then_entry = first_elements message_then_elements"
    by (simp add: first_elements_def run_defs sample_defs)
  have u': "unknown_code_errors sample_deps message_then_entry =
            unknown_code_errors sample_deps message_then_elements"
    by (simp add: unknown_code_errors_def status_errors_def run_defs sample_defs)
  from C8_first_elements_decide [OF f u, of 0] C8_first_elements_decide [OF f' u', of 0] f u f' u'
  show ?thesis by simp
qed

text \<open>
  C8 as the specification words it fails on later errors: two status notifications that agree on
  every first element and differ in the second error of the first status, the first
  error having a code outside the table, make the handler call \<open>parseUnknownError\<close> and
  \<open>captureException\<close> with different errors.
\<close>

theorem C8_counterexample:
  "first_elements (status_payload (Some [\<lparr>code = 131000, error_data = None, error_rest = JObject []\<rparr>])) =
   first_elements (status_payload (Some [\<lparr>code = 131000, error_data = None, error_rest = JObject []\<rparr>,
                                         \<lparr>code = 131049, error_data = None, error_rest = JObject []\<rparr>])) \<and>
   receiveMessagePreview sample_deps 0
     (status_payload (Some [\<lparr>code = 131000, error_data = None, error_rest = JObject []\<rparr>])) \<noteq>
   receiveMessagePreview sample_deps 0
     (status_payload (Some [\<lparr>code = 131000, error_data = None, error_rest = JObject []\<rparr>,
                            \<lparr>code = 131049, error_data = None, error_rest = JObject []\<rparr>]))"
  by (simp add: first_elements_def run_defs sample_defs errors_text_def error_text_def)

text \<open>
  C9. \<^verbatim>\<open>extractMessageData\<close> is a total function into the record of its three results:
  every access it makes is guarded by \<^verbatim>\<open>?.\<close> or reads a required field, so the
  embedding has no failure branch. The received message is the first message, if any.
  The phone number is the empty string without a first message and the \<open>from\<close> field of
  the first message otherwise; it is the same for any two payloads with the same first
  message, whatever their contacts. The name is the empty string when the first contact,
  its profile or the profile's name is absent, and that name otherwise.
\<close>

theorem C9_extractMessageData_total:
  "md_receivedMessage (extractMessageData entry) = first_message entry \<and>
   (first_message entry = None \<longrightarrow> contactPhoneNumber (extractMessageData entry) = '''') \<and>
   (\<forall>m. first_message entry = Some m \<longrightarrow>
      contactPhoneNumber (extractMessageData entry) = msg_from m) \<and>
   (\<forall>entry'. first_message entry' = first_message entry \<longrightarrow>
      contactPhoneNumber (extractMessageData entry') =
      contactPhoneNumber (extractMessageData entry)) \<and>
   ((\<forall>c p. first_contact entry = Some c \<longrightarrow> profile c = Some p \<longrightarrow> name p = None) \<longrightarrow>
      contactName (extractMessageData entry) = '''') \<and>
   (\<forall>c p n. first_contact entry = Some c \<longrightarrow> profile c = Some p \<longrightarrow> name p = Some n \<longrightarrow>
      contactName (extractMessageData entry) = n)"
  by (auto simp: extractMessageData_def split: option.splits)

theorem C9_witness:
  "first_message
     (payload_of \<lparr>statuses = None, messages = Some [sample_message],
                  contacts = Some [\<lparr>profile = Some \<lparr>name = None\<rparr>\<rparr>]\<rparr>) = Some sample_message \<and>
   extractMessageData
     (payload_of \<lparr>statuses = None, messages = Some [sample_message],
                  contacts = Some [\<lparr>profile = Some \<lparr>name = None\<rparr>\<rparr>]\<rparr>) =
     \<lparr>md_receivedMessage = Some sample_message, contactName = '''',
      contactPhoneNumber = ''33612345678''\<rparr> \<and>
   first_message (status_payload None) = None \<and>
   extractMessageData (status_payload None) =
     \<lparr>md_receivedMessage = None, contactName = '''', contactPhoneNumber = ''''\<rparr> \<and>
   contactName (extractMessageData message_payload) = ''Ada''"
proof -
  let ?p = "payload_of \<lparr>statuses = None, messages = Some [sample_message],
                  contacts = Some [\<lparr>profile = Some \<lparr>name = None\<rparr>\<rparr>]\<rparr>"
  have m: "first_message ?p = Some sample_message"
    by (simp add: run_defs sample_defs)
  have c: "first_contact ?p = Some \<lparr>profile = Some \<lparr>name = None\<rparr>\<rparr>"
    by (simp add: run_defs sample_defs)
  have n: "first_message (status_payload None) = None"
    by (simp add: run_defs sample_defs)
  have c': "first_contact (status_payload None) = None"
    by (simp add: run_defs sample_defs)
  have a: "first_contact message_payload = Some sample_contact"
    by (simp add: run_defs sample_defs)
  have 1: "contactPhoneNumber (extractMessageData ?p) = msg_from sample_message"
    using C9_extractMessageData_total [of ?p] m by blast
  have 2: "contactName (extractMessageData ?p) = ''''"
    using C9_extractMessageData_total [of ?p] c by simp
  have 3: "md_receivedMessage (extractMessageData ?p) = Some sample_message"
    using C9_extractMessageData_total [of ?p] m by simp
  have 4: "contactPhoneNumber (extractMessageData (status_payload None)) = ''''"
    using C9_extractMessageData_total [of "status_payload None"] n by blast
  have 5: "contactName (extractMessageData (status_payload None)) = ''''"
    using C9_extractMessageData_total [of "status_payload None"] c' by simp
  have 6: "md_receivedMessage (extractMessageData (status_payload None)) = None"
    using C9_extractMessageData_total [of "status_payload None"] n by simp
  have 7: "contactName (extractMessageData message_payload) = ''Ada''"
    using C9_extractMessageData_total [of message_payload] a by (simp add: sample_contact_def)
  from 1 2 3 have x: "extractMessageData ?p =
     \<lparr>md_receivedMessage = Some sample_message, contactName = '''',
      contactPhoneNumber = ''33612345678''\<rparr>"
    by (simp add: sample_message_def message_data.equality)
  from 4 5 6 have y: "extractMessageData (status_payload None) =
     \<lparr>md_receivedMessage = None, contactName = '''', contactPhoneNumber = ''''\<rparr>"
    by (simp add: message_data.equality)
  from m n x y 7 show ?thesis by simp
qed

text \<open>
  C10. When the first status has an \<open>errors\<close> field, whatever its length and codes,
  \<^verbatim>\<open>processErrors\<close> throws; the \<^verbatim>\<open>try\<close> block ends with that throw, in the state
  \<^verbatim>\<open>processErrors\<close> left, so extraction and resumption are not reached and the handler's
  trace holds no call to \<open>resumeWhatsAppFlow\<close>. For every payload the handler makes at
  most one call to the session store or the flow engine, hence never both.
\<close>

theorem C10_errors_exclude_resumption:
  "(status_errors entry = Some errs \<longrightarrow>
      (\<exists>e. fst (processErrors d s entry) = Inl e \<and>
           try_block d s entry = (Thrown e, snd (processErrors d s entry))) \<and>
      (\<forall>a. ResumeWhatsAppFlow a \<notin> set (trace (snd (receiveMessagePreview d w entry))))) \<and>
   length (flow_calls (trace (snd (receiveMessagePreview d w entry)))) \<le> 1 \<and>
   \<not> ((\<exists>sid. DeleteSession sid \<in> set (trace (snd (receiveMessagePreview d w entry)))) \<and>
      (\<exists>a. ResumeWhatsAppFlow a \<in> set (trace (snd (receiveMessagePreview d w entry)))))"
proof -
  have 1: "status_errors entry = Some errs \<longrightarrow>
      (\<exists>e. fst (processErrors d s entry) = Inl e \<and>
           try_block d s entry = (Thrown e, snd (processErrors d s entry)))"
  proof
    assume se: "status_errors entry = Some errs"
    from processErrors_throws [OF se, of d s] obtain e where e: "fst (processErrors d s entry) = Inl e" ..
    then have "try_block d s entry = (Thrown e, snd (processErrors d s entry))"
      by (cases "processErrors d s entry") (simp add: try_block_def)
    with e show "\<exists>e. fst (processErrors d s entry) = Inl e \<and>
           try_block d s entry = (Thrown e, snd (processErrors d s entry))" by blast
  qed
  have 2: "status_errors entry = Some errs \<longrightarrow>
      (\<forall>a. ResumeWhatsAppFlow a \<notin> set (trace (snd (receiveMessagePreview d w entry))))"
    by (simp add: not_resumed expected_flow_calls_errors_no_resume)
  have 3: "length (flow_calls (trace (snd (receiveMessagePreview d w entry)))) \<le> 1"
    using expected_flow_calls_length [of d entry] by (simp add: receive_flow_calls)
  have 4: "\<not> ((\<exists>sid. DeleteSession sid \<in> set (trace (snd (receiveMessagePreview d w entry)))) \<and>
      (\<exists>a. ResumeWhatsAppFlow a \<in> set (trace (snd (receiveMessagePreview d w entry)))))"
  proof
    assume "(\<exists>sid. DeleteSession sid \<in> set (trace (snd (receiveMessagePreview d w entry)))) \<and>
      (\<exists>a. ResumeWhatsAppFlow a \<in> set (trace (snd (receiveMessagePreview d w entry))))"
    then obtain sid a where
      "DeleteSession sid \<in> set (trace (snd (receiveMessagePreview d w entry)))"
      "ResumeWhatsAppFlow a \<in> set (trace (snd (receiveMessagePreview d w entry)))"
      by blast
    then have "DeleteSession sid \<in> set (flow_calls (trace (snd (receiveMessagePreview d w entry))))"
      "ResumeWhatsAppFlow a \<in> set (flow_calls (trace (snd (receiveMessagePreview d w entry))))"
      by (simp_all add: flow_call_in_trace)
    then show False
      using expected_flow_calls_not_both [of sid d entry a]
      by (simp add: receive_flow_calls split: if_splits)
  qed
  from 1 2 3 4 show ?thesis by blast
qed

theorem C10_witness:
  "status_errors status_and_message_payload = Some [\<lparr>code = 131049, error_data = None, error_rest = JObject []\<rparr>] \<and>
   first_message status_and_message_payload = Some sample_message \<and>
   (\<forall>a. ResumeWhatsAppFlow a \<notin>
      set (trace (snd (receiveMessagePreview sample_deps 0 status_and_message_payload))))"
proof -
  have s: "status_errors status_and_message_payload =
             Some [\<lparr>code = 131049, error_data = None, error_rest = JObject []\<rparr>]"
    by (simp add: status_errors_def run_defs sample_defs)
  have m: "first_message status_and_message_payload = Some sample_message"
    by (simp add: run_defs sample_defs)
  from C10_errors_exclude_resumption
         [of status_and_message_payload "[\<lparr>code = 131049, error_data = None, error_rest = JObject []\<rparr>]" sample_deps
            "\<lparr>world = 0, trace = []\<rparr>" 0] s m
  show ?thesis by blast
qed

end
